theory Spec2Isabelle
  imports Main
begin

section \<open>Errors\<close>

text \<open>
  A Go \<^verbatim>\<open>error\<close> is modelled by what produced it.
  \<^item> \<open>errorString m\<close>: built in this file by \<^verbatim>\<open>fmt.Errorf\<close> or \<^verbatim>\<open>errors.New\<close> from a format
    constant of this file; \<open>m\<close> is the formatted message.
  \<^item> \<open>paramNotSpecifiedError p\<close>: \<^verbatim>\<open>fmt.Errorf(paramNotSpecifiedError, p)\<close>; the format constant is
    declared in another file of the package, so the error stays symbolic.
  \<^item> \<open>invalidDnsLengthError\<close>: \<^verbatim>\<open>fmt.Errorf(invalidDnsLengthError)\<close>, same remark.
  \<^item> \<open>External m\<close>: an error value handed back by a collaborator (transport, operation
    tracker, file system, codec).
\<close>

datatype error =
    errorString string
  | paramNotSpecifiedError string
  | invalidDnsLengthError
  | External string

definition invalidCertExtensionError :: "string \<Rightarrow> string \<Rightarrow> string" where
  "invalidCertExtensionError cert ext =
     ''Certificate '' @ cert @ '' is invalid. Please specify '' @ ext @ '' certificate.''"

definition invalidOSError :: string where
  "invalidOSError =
     ''You must specify correct OS param. Valid values are '' @ [CHR 0x27] @ ''Linux'' @
     [CHR 0x27] @ '' and '' @ [CHR 0x27] @ ''Windows'' @ [CHR 0x27]"

definition invalidPasswordLengthError :: string where
  "invalidPasswordLengthError = ''Password must be between 4 and 30 characters.''"

definition invalidPasswordError :: string where
  "invalidPasswordError =
     ''Password must have at least one upper case, lower case and numeric character.''"

definition invalidRoleSizeInLocationError :: "string \<Rightarrow> string \<Rightarrow> string" where
  "invalidRoleSizeInLocationError sz loc =
     ''Role size: '' @ sz @ '' not available in location: '' @ loc @ ''.''"

definition osLinux :: string where
  "osLinux = ''Linux''"

definition osWindows :: string where
  "osWindows = ''Windows''"

section \<open>Go strings: bytes and runes\<close>

text \<open>
  A Go string is a sequence of bytes, here a \<open>string\<close> (each \<open>char\<close> is one byte);
  \<^verbatim>\<open>len(s)\<close> is \<open>length s\<close>, the number of bytes. \<^verbatim>\<open>for _, r := range s\<close> walks the
  string rune by rune, decoding UTF-8: \<open>decodeRune\<close> gives the rune at the head of a
  non-empty byte sequence and the number of bytes it takes; a byte that starts no valid
  encoding yields \<open>RuneError\<close> and takes one byte.
\<close>

definition RuneError :: nat where
  "RuneError = 0xFFFD"

definition cont :: "nat \<Rightarrow> bool" where
  "cont b = (0x80 \<le> b \<and> b \<le> 0xBF)"

fun decodeRune :: "nat list \<Rightarrow> nat \<times> nat" where
  "decodeRune [] = (RuneError, 1)"
| "decodeRune (b0 # bs) =
     (if b0 < 0x80 then (b0, 1)
      else if 0xC2 \<le> b0 \<and> b0 \<le> 0xDF then
        (case bs of
           b1 # _ \<Rightarrow> if cont b1 then ((b0 - 0xC0) * 64 + (b1 - 0x80), 2) else (RuneError, 1)
         | _ \<Rightarrow> (RuneError, 1))
      else if 0xE0 \<le> b0 \<and> b0 \<le> 0xEF then
        (case bs of
           b1 # b2 # _ \<Rightarrow>
             if (if b0 = 0xE0 then 0xA0 \<le> b1 \<and> b1 \<le> 0xBF
                 else if b0 = 0xED then 0x80 \<le> b1 \<and> b1 \<le> 0x9F
                 else cont b1) \<and> cont b2
             then ((b0 - 0xE0) * 4096 + (b1 - 0x80) * 64 + (b2 - 0x80), 3)
             else (RuneError, 1)
         | _ \<Rightarrow> (RuneError, 1))
      else if 0xF0 \<le> b0 \<and> b0 \<le> 0xF4 then
        (case bs of
           b1 # b2 # b3 # _ \<Rightarrow>
             if (if b0 = 0xF0 then 0x90 \<le> b1 \<and> b1 \<le> 0xBF
                 else if b0 = 0xF4 then 0x80 \<le> b1 \<and> b1 \<le> 0x8F
                 else cont b1) \<and> cont b2 \<and> cont b3
             then ((b0 - 0xF0) * 262144 + (b1 - 0x80) * 4096 + (b2 - 0x80) * 64 + (b3 - 0x80), 4)
             else (RuneError, 1)
         | _ \<Rightarrow> (RuneError, 1))
      else (RuneError, 1))"

function runesOf :: "nat list \<Rightarrow> nat list" where
  "runesOf bs =
     (if bs = [] then []
      else fst (decodeRune bs) # runesOf (drop (snd (decodeRune bs)) bs))"
  by pat_completeness auto
termination
proof (relation "measure length")
  show "wf (measure length)" by simp
next
  fix bs :: "nat list"
  assume "bs \<noteq> []"
  moreover have "1 \<le> snd (decodeRune bs)"
    by (cases bs) (auto split: list.splits)
  ultimately show "(drop (snd (decodeRune bs)) bs, bs) \<in> measure length"
    by (cases bs) auto
qed

declare runesOf.simps [simp del]

definition runes :: "string \<Rightarrow> nat list" where
  "runes s = runesOf (map of_char s)"

section \<open>The Unicode range tables\<close>

text \<open>
  \<^verbatim>\<open>unicode.Upper\<close>, \<^verbatim>\<open>unicode.Title\<close>, \<^verbatim>\<open>unicode.Lower\<close>, \<^verbatim>\<open>unicode.Number\<close> and
  \<^verbatim>\<open>unicode.Digit\<close> are tables of Go's standard library. On the ASCII range they are
  written out (\<open>A\<close>-\<open>Z\<close> is upper case, \<open>a\<close>-\<open>z\<close> lower case, \<open>0\<close>-\<open>9\<close> both a number
  and a digit, nothing is title case); beyond ASCII they are a parameter.
\<close>

record rangeTables =
  upperBeyond :: "nat \<Rightarrow> bool"
  titleBeyond :: "nat \<Rightarrow> bool"
  lowerBeyond :: "nat \<Rightarrow> bool"
  numberBeyond :: "nat \<Rightarrow> bool"
  digitBeyond :: "nat \<Rightarrow> bool"

definition Upper :: "rangeTables \<Rightarrow> nat \<Rightarrow> bool" where
  "Upper T r = (if r < 0x80 then 0x41 \<le> r \<and> r \<le> 0x5A else upperBeyond T r)"

definition Title :: "rangeTables \<Rightarrow> nat \<Rightarrow> bool" where
  "Title T r = (if r < 0x80 then False else titleBeyond T r)"

definition Lower :: "rangeTables \<Rightarrow> nat \<Rightarrow> bool" where
  "Lower T r = (if r < 0x80 then 0x61 \<le> r \<and> r \<le> 0x7A else lowerBeyond T r)"

definition Number :: "rangeTables \<Rightarrow> nat \<Rightarrow> bool" where
  "Number T r = (if r < 0x80 then 0x30 \<le> r \<and> r \<le> 0x39 else numberBeyond T r)"

definition Digit :: "rangeTables \<Rightarrow> nat \<Rightarrow> bool" where
  "Digit T r = (if r < 0x80 then 0x30 \<le> r \<and> r \<le> 0x39 else digitBeyond T r)"

definition IsOneOf :: "(nat \<Rightarrow> bool) list \<Rightarrow> nat \<Rightarrow> bool" where
  "IsOneOf classes r = list_ex (\<lambda>inside. inside r) classes"

section \<open>Local validation\<close>

definition verifyDNSname :: "string \<Rightarrow> error option" where
  "verifyDNSname dns =
     (if length dns < 3 \<or> length dns > 25 then Some invalidDnsLengthError else None)"

text \<open>
  \<^verbatim>\<open>verifyPassword\<close>: the length test is on \<^verbatim>\<open>len(password)\<close>, the byte count; the
  labelled loop asks, for each of the three classes, for one rune of the password in it.
  Go walks the map of classes in no fixed order, and every class that fails returns the
  same error, so the order does not show in the result.
\<close>

definition verifyPassword :: "rangeTables \<Rightarrow> string \<Rightarrow> error option" where
  "verifyPassword T password =
     (if length password < 4 \<or> length password > 30
      then Some (errorString invalidPasswordLengthError)
      else if list_all (\<lambda>classes. list_ex (IsOneOf classes) (runes password))
                [[Upper T, Title T], [Lower T], [Number T, Digit T]]
      then None
      else Some (errorString invalidPasswordError))"

section \<open>Data model\<close>

text \<open>
  The structs of the package, with the fields this file reads or writes. The XML wrapper
  structs that hold one slice (\<^verbatim>\<open>ConfigurationSets\<close>, \<^verbatim>\<open>InputEndpoints\<close>, \<^verbatim>\<open>SSH\<close> with
  \<^verbatim>\<open>PublicKeys\<close>, \<^verbatim>\<open>RoleList\<close>) are the slice itself. A value built as \<^verbatim>\<open>T{}\<close> or
  \<^verbatim>\<open>new(T)\<close> starts from the zero value of every field.
\<close>

record InputEndpoint =
  Name :: string
  Protocol :: string
  Port :: int
  LocalPort :: int

record PublicKey =
  Fingerprint :: string
  Path :: string

record ConfigurationSet =
  ConfigurationSetType :: string
  HostName :: string
  UserName :: string
  UserPassword :: string
  DisableSshPasswordAuthentication :: bool
  SSH :: "PublicKey list"
  InputEndpoints :: "InputEndpoint list"

record OSVirtualHardDisk =
  SourceImageName :: string
  MediaLink :: string

record Role =
  RoleName :: string
  RoleSize :: string
  RoleType :: string
  ProvisionGuestAgent :: bool
  OSVirtualHardDisk :: OSVirtualHardDisk
  ConfigurationSets :: "ConfigurationSet list"
  UseCertAuth :: bool
  CertPath :: string

record VMDeployment =
  DeploymentName :: string
  DeploymentXmlns :: string
  DeploymentSlot :: string
  Label :: string
  RoleList :: "Role list"

record ServiceCertificate =
  CertificateXmlns :: string
  Data :: string
  CertificateFormat :: string

record RoleOperation =
  OperationType :: string
  OperationXmlns :: string

record Location =
  VirtualMachineRoleSizes :: "string list"

record pemBlock =
  Bytes :: string

definition zeroInputEndpoint :: InputEndpoint where
  "zeroInputEndpoint = \<lparr>Name = [], Protocol = [], Port = 0, LocalPort = 0\<rparr>"

definition zeroConfigurationSet :: ConfigurationSet where
  "zeroConfigurationSet =
     \<lparr>ConfigurationSetType = [], HostName = [], UserName = [], UserPassword = [],
      DisableSshPasswordAuthentication = False, SSH = [], InputEndpoints = []\<rparr>"

definition zeroOSVirtualHardDisk :: OSVirtualHardDisk where
  "zeroOSVirtualHardDisk = \<lparr>SourceImageName = [], MediaLink = []\<rparr>"

definition zeroRole :: Role where
  "zeroRole =
     \<lparr>RoleName = [], RoleSize = [], RoleType = [], ProvisionGuestAgent = False,
      OSVirtualHardDisk = zeroOSVirtualHardDisk, ConfigurationSets = [],
      UseCertAuth = False, CertPath = []\<rparr>"

text \<open>What \<^verbatim>\<open>xml.Marshal\<close> is given in this file.\<close>

datatype document =
    DeploymentDoc VMDeployment
  | CertificateDoc ServiceCertificate
  | StartRoleDoc RoleOperation
  | ShutdownRoleDoc RoleOperation
  | RestartRoleDoc RoleOperation

section \<open>Collaborators\<close>

text \<open>
  Every call that leaves this file for a collaborator with effects (the hosted-service,
  location, image and storage clients, the transport, the operation tracker, the file
  system, the clock, the UUID source) is recorded as a \<open>call\<close>. The state threaded
  through the workflows is the list of calls made so far, oldest first. A collaborator
  answers from the calls made before and its arguments, which covers every deterministic
  remote side. \<open>'svc\<close> is the storage-service handle.
\<close>

datatype 'svc call =
    CallCreateHostedService string string string
  | CallDeleteHostedService string
  | CallWaitAsyncOperation string
  | CallPostRequest string string
  | CallDeleteRequest string
  | CallGetLocation string
  | CallResolveImageName string
  | CallGetStorageServiceByLocation string
  | CallNewUUID
  | CallCreateStorageService string string
  | CallGetBlobEndpoint "'svc option"
  | CallNow
  | CallReadFile string

text \<open>
  The pure parts of the standard library and the constants declared in other files of
  the package are fields of the same record: \<open>azureXmlns\<close>; \<open>azureDeploymentListURL n\<close>
  for \<^verbatim>\<open>fmt.Sprintf(azureDeploymentListURL, n)\<close>; \<open>xmlMarshal\<close>; \<open>base64\<close> for
  \<^verbatim>\<open>base64.StdEncoding.EncodeToString\<close>; \<open>pemDecode\<close> for \<^verbatim>\<open>pem.Decode\<close> (the block, nil
  when none is found, and the rest); \<open>sha1Sum\<close> for \<^verbatim>\<open>sha1.Sum\<close>; \<open>Now\<close> for
  \<^verbatim>\<open>time.Now().Local().Format("20060102150405")\<close>; \<open>unicode\<close> for the range tables.
  A result \<^verbatim>\<open>(v, err)\<close> is \<open>Inl err\<close> when \<^verbatim>\<open>err != nil\<close> and \<open>Inr v\<close> otherwise; a
  pointer result that may be nil is an option.
\<close>

record 'svc env =
  azureXmlns :: string
  azureDeploymentListURL :: "string \<Rightarrow> string"
  CreateHostedService :: "'svc call list \<Rightarrow> string \<Rightarrow> string \<Rightarrow> string \<Rightarrow> error + string"
  DeleteHostedService :: "'svc call list \<Rightarrow> string \<Rightarrow> error option"
  waitAsyncOperation :: "'svc call list \<Rightarrow> string \<Rightarrow> error option"
  sendAzurePostRequest :: "'svc call list \<Rightarrow> string \<Rightarrow> string \<Rightarrow> error + string"
  sendAzureDeleteRequest :: "'svc call list \<Rightarrow> string \<Rightarrow> error + string"
  GetLocation :: "'svc call list \<Rightarrow> string \<Rightarrow> error + Location"
  ResolveImageName :: "'svc call list \<Rightarrow> string \<Rightarrow> error option"
  GetStorageServiceByLocation :: "'svc call list \<Rightarrow> string \<Rightarrow> error + 'svc option"
  newUUID :: "'svc call list \<Rightarrow> error + string"
  CreateStorageService :: "'svc call list \<Rightarrow> string \<Rightarrow> string \<Rightarrow> error + 'svc option"
  GetBlobEndpoint :: "'svc call list \<Rightarrow> 'svc option \<Rightarrow> error + string"
  Now :: "'svc call list \<Rightarrow> string"
  ReadFile :: "'svc call list \<Rightarrow> string \<Rightarrow> error + string"
  xmlMarshal :: "document \<Rightarrow> error + string"
  base64 :: "string \<Rightarrow> string"
  pemDecode :: "string \<Rightarrow> pemBlock option \<times> string"
  sha1Sum :: "string \<Rightarrow> string"
  unicode :: rangeTables

section \<open>Formatting helpers\<close>

text \<open>\<^verbatim>\<open>strings.Split(s, ".")\<close>: the pieces of \<open>s\<close> between the separators, never empty.\<close>

fun split :: "char \<Rightarrow> string \<Rightarrow> string list" where
  "split sep [] = [[]]"
| "split sep (c # cs) =
     (if c = sep then [] # split sep cs
      else (case split sep cs of
              p # ps \<Rightarrow> (c # p) # ps
            | [] \<Rightarrow> [[c]]))"

text \<open>
  \<^verbatim>\<open>fmt.Sprintf("%X", b)\<close> on a byte array: two upper-case hexadecimal digits for each
  byte, nothing between them.
\<close>

definition hexDigit :: "nat \<Rightarrow> char" where
  "hexDigit n = ''0123456789ABCDEF'' ! (n mod 16)"

definition SprintfX :: "string \<Rightarrow> string" where
  "SprintfX b = concat (map (\<lambda>c. [hexDigit (of_char c div 16), hexDigit (of_char c mod 16)]) b)"

definition azureRoleURL :: "string \<Rightarrow> string \<Rightarrow> string \<Rightarrow> string" where
  "azureRoleURL service deployment role =
     ''services/hostedservices/'' @ service @ ''/deployments/'' @ deployment @ ''/roles/'' @ role"

definition azureOperationsURL :: "string \<Rightarrow> string \<Rightarrow> string \<Rightarrow> string" where
  "azureOperationsURL service deployment role =
     ''services/hostedservices/'' @ service @ ''/deployments/'' @ deployment @
     ''/roleinstances/'' @ role @ ''/Operations''"

definition azureCertificatListURL :: "string \<Rightarrow> string" where
  "azureCertificatListURL service = ''services/hostedservices/'' @ service @ ''/certificates''"

section \<open>Configuration assembly\<close>

definition isInstanceSizeAvailableInLocation :: "Location \<Rightarrow> string \<Rightarrow> error + bool" where
  "isInstanceSizeAvailableInLocation location instanceSize =
     (if length instanceSize = 0 then Inl (paramNotSpecifiedError ''vmSize'')
      else Inr (list_ex (\<lambda>availableRoleSize. availableRoleSize = instanceSize)
                  (VirtualMachineRoleSizes location)))"

definition createEndpoint :: "string \<Rightarrow> string \<Rightarrow> int \<Rightarrow> int \<Rightarrow> InputEndpoint" where
  "createEndpoint name protocol extertalPort internalPort =
     zeroInputEndpoint\<lparr>Name := name, Protocol := protocol, Port := extertalPort,
       LocalPort := internalPort\<rparr>"

definition createNetworkConfig :: "string \<Rightarrow> int \<Rightarrow> error + ConfigurationSet" where
  "createNetworkConfig os sshPort =
     (let networkConfig = zeroConfigurationSet\<lparr>ConfigurationSetType := ''NetworkConfiguration''\<rparr>
      in if os = osLinux then
           Inr (networkConfig\<lparr>InputEndpoints :=
                  InputEndpoints networkConfig @ [createEndpoint ''ssh'' ''tcp'' sshPort 22]\<rparr>)
         else if os = osWindows then
           Inr (networkConfig\<lparr>InputEndpoints :=
                  InputEndpoints networkConfig @ [zeroInputEndpoint]\<rparr>)
         else Inl (errorString invalidOSError))"

definition checkServiceCertExtension :: "string \<Rightarrow> error option" where
  "checkServiceCertExtension certPath =
     (let certParts = split (CHR ''.'') certPath;
          certExt = last certParts;
          acceptedExtension = ''pem''
      in if certExt \<noteq> acceptedExtension
         then Some (errorString (invalidCertExtensionError certPath acceptedExtension))
         else None)"

definition getServiceCertFingerprint ::
  "'svc env \<Rightarrow> string \<Rightarrow> 'svc call list \<Rightarrow> (error + string) \<times> 'svc call list" where
  "getServiceCertFingerprint env certPath h =
     (let h1 = h @ [CallReadFile certPath]
      in case ReadFile env h certPath of
           Inl readErr \<Rightarrow> (Inl readErr, h1)
         | Inr certData \<Rightarrow>
             (case pemDecode env certData of
                (None, rest) \<Rightarrow> (Inl (errorString rest), h1)
              | (Some block, rest) \<Rightarrow>
                  (let sha1sum = sha1Sum env (Bytes block);
                       fingerprint = SprintfX sha1sum
                   in (Inr fingerprint, h1))))"

definition createSshConfig ::
  "'svc env \<Rightarrow> string \<Rightarrow> string \<Rightarrow> 'svc call list \<Rightarrow> (error + PublicKey list) \<times> 'svc call list" where
  "createSshConfig env certPath userName h =
     (case checkServiceCertExtension certPath of
        Some err \<Rightarrow> (Inl err, h)
      | None \<Rightarrow>
          (case getServiceCertFingerprint env certPath h of
             (Inl err, h1) \<Rightarrow> (Inl err, h1)
           | (Inr fingerprint, h1) \<Rightarrow>
               (Inr ([] @ [\<lparr>Fingerprint = fingerprint,
                              Path = ''/home/'' @ userName @ ''/.ssh/authorized_keys''\<rparr>]), h1)))"

text \<open>
  \<open>createLinuxProvisioningConfigWith verify\<close> is the body of
  \<^verbatim>\<open>createLinuxProvisioningConfig\<close> with the validator it calls as a parameter;
  \<open>createLinuxProvisioningConfig\<close> is the method itself, which calls
  \<^verbatim>\<open>self.verifyPassword\<close>.
\<close>

definition createLinuxProvisioningConfigWith ::
  "(string \<Rightarrow> error option) \<Rightarrow> 'svc env \<Rightarrow> string \<Rightarrow> string \<Rightarrow> string \<Rightarrow> string
     \<Rightarrow> 'svc call list \<Rightarrow> (error + ConfigurationSet) \<times> 'svc call list" where
  "createLinuxProvisioningConfigWith verify env dnsName userName userPassword certPath h =
     (case (if length userPassword = 0 then Inr (True, ''P@ssword1'')
            else (case verify userPassword of
                    Some err \<Rightarrow> Inl err
                  | None \<Rightarrow> Inr (False, userPassword))) of
        Inl err \<Rightarrow> (Inl err, h)
      | Inr (disableSshPasswordAuthentication, userPassword') \<Rightarrow>
          (let provisioningConfig = zeroConfigurationSet
                 \<lparr>DisableSshPasswordAuthentication := disableSshPasswordAuthentication,
                  ConfigurationSetType := ''LinuxProvisioningConfiguration'',
                  HostName := dnsName,
                  UserName := userName,
                  UserPassword := userPassword'\<rparr>
           in if length certPath > 0 then
                (case createSshConfig env certPath userName h of
                   (Inl err, h1) \<Rightarrow> (Inl err, h1)
                 | (Inr ssh, h1) \<Rightarrow> (Inr (provisioningConfig\<lparr>SSH := ssh\<rparr>), h1))
              else (Inr provisioningConfig, h)))"

definition createLinuxProvisioningConfig ::
  "'svc env \<Rightarrow> string \<Rightarrow> string \<Rightarrow> string \<Rightarrow> string \<Rightarrow> 'svc call list
     \<Rightarrow> (error + ConfigurationSet) \<times> 'svc call list" where
  "createLinuxProvisioningConfig env =
     createLinuxProvisioningConfigWith (verifyPassword (unicode env)) env"

text \<open>
  \<^verbatim>\<open>AddAzureLinuxProvisioningConfig\<close> returns the pointer it was given, after writing to
  the Role behind it; on every other path it returns nil and has written nothing. The
  first component of the result is that pointer (\<open>Some\<close> of the Role as it now is). When
  \<^verbatim>\<open>createNetworkConfig\<close> fails the source returns \<^verbatim>\<open>err\<close>, which is nil there, not
  \<^verbatim>\<open>networkErr\<close>.
\<close>

definition AddAzureLinuxProvisioningConfig ::
  "'svc env \<Rightarrow> Role option \<Rightarrow> string \<Rightarrow> string \<Rightarrow> string \<Rightarrow> int \<Rightarrow> 'svc call list
     \<Rightarrow> (Role option \<times> error option) \<times> 'svc call list" where
  "AddAzureLinuxProvisioningConfig env azureVMConfiguration userName password certPath sshPort h =
     (case azureVMConfiguration of
        None \<Rightarrow> ((None, Some (paramNotSpecifiedError ''azureVMConfiguration'')), h)
      | Some role \<Rightarrow>
          if length userName = 0 then ((None, Some (paramNotSpecifiedError ''userName'')), h)
          else
            (case createLinuxProvisioningConfig env (RoleName role) userName password certPath h of
               (Inl err, h1) \<Rightarrow> ((None, Some err), h1)
             | (Inr provisioningConfig, h1) \<Rightarrow>
                 (let configurationSets = [] @ [provisioningConfig]
                  in case createNetworkConfig osLinux sshPort of
                       Inl networkErr \<Rightarrow> ((None, None), h1)
                     | Inr networkConfig \<Rightarrow>
                         (let configurationSets' = configurationSets @ [networkConfig];
                              role1 = role\<lparr>ConfigurationSets := configurationSets'\<rparr>;
                              role2 = (if length certPath > 0
                                       then role1\<lparr>UseCertAuth := True, CertPath := certPath\<rparr>
                                       else role1)
                          in ((Some role2, None), h1)))))"

section \<open>Disk media link and role construction\<close>

definition getVHDMediaLink ::
  "'svc env \<Rightarrow> string \<Rightarrow> string \<Rightarrow> 'svc call list \<Rightarrow> (error + string) \<times> 'svc call list" where
  "getVHDMediaLink env dnsName location h =
     (let h1 = h @ [CallGetStorageServiceByLocation location]
      in case GetStorageServiceByLocation env h location of
           Inl err \<Rightarrow> (Inl err, h1)
         | Inr found \<Rightarrow>
             (case (case found of
                      Some s \<Rightarrow> (Inr (Some s), h1)
                    | None \<Rightarrow>
                        (let h2 = h1 @ [CallNewUUID]
                         in case newUUID env h1 of
                              Inl err \<Rightarrow> (Inl err, h2)
                            | Inr uuid \<Rightarrow>
                                (let serviceName = ''portalvhds'' @ uuid
                                 in (CreateStorageService env h2 serviceName location,
                                     h2 @ [CallCreateStorageService serviceName location])))) of
                (Inl err, h3) \<Rightarrow> (Inl err, h3)
              | (Inr storageService, h3) \<Rightarrow>
                  (let h4 = h3 @ [CallGetBlobEndpoint storageService]
                   in case GetBlobEndpoint env h3 storageService of
                        Inl err \<Rightarrow> (Inl err, h4)
                      | Inr blobEndpoint \<Rightarrow>
                          (Inr (blobEndpoint @ ''vhds/'' @ dnsName @ ''-'' @ Now env h4 @ ''.vhd''),
                           h4 @ [CallNow]))))"

definition createOSVirtualHardDisk ::
  "'svc env \<Rightarrow> string \<Rightarrow> string \<Rightarrow> string \<Rightarrow> 'svc call list
     \<Rightarrow> (error + OSVirtualHardDisk) \<times> 'svc call list" where
  "createOSVirtualHardDisk env dnsName imageName location h =
     (let h1 = h @ [CallResolveImageName imageName]
      in case ResolveImageName env h imageName of
           Some err \<Rightarrow> (Inl err, h1)
         | None \<Rightarrow>
             (case getVHDMediaLink env dnsName location h1 of
                (Inl err, h2) \<Rightarrow> (Inl err, h2)
              | (Inr link, h2) \<Rightarrow>
                  (Inr (zeroOSVirtualHardDisk\<lparr>SourceImageName := imageName, MediaLink := link\<rparr>),
                   h2)))"

definition createAzureVMRole ::
  "'svc env \<Rightarrow> string \<Rightarrow> string \<Rightarrow> string \<Rightarrow> string \<Rightarrow> 'svc call list
     \<Rightarrow> (error + Role) \<times> 'svc call list" where
  "createAzureVMRole env name instanceSize imageName location h =
     (let config = zeroRole\<lparr>RoleName := name, RoleSize := instanceSize,
                     RoleType := ''PersistentVMRole'', ProvisionGuestAgent := True\<rparr>
      in case createOSVirtualHardDisk env name imageName location h of
           (Inl err, h1) \<Rightarrow> (Inl err, h1)
         | (Inr disk, h1) \<Rightarrow> (Inr (config\<lparr>OSVirtualHardDisk := disk\<rparr>), h1))"

definition CreateAzureVMConfiguration ::
  "'svc env \<Rightarrow> string \<Rightarrow> string \<Rightarrow> string \<Rightarrow> string \<Rightarrow> 'svc call list
     \<Rightarrow> (error + Role) \<times> 'svc call list" where
  "CreateAzureVMConfiguration env dnsName instanceSize imageName location h =
     (if length dnsName = 0 then (Inl (paramNotSpecifiedError ''dnsName''), h)
      else if length instanceSize = 0 then (Inl (paramNotSpecifiedError ''instanceSize''), h)
      else if length imageName = 0 then (Inl (paramNotSpecifiedError ''imageName''), h)
      else if length location = 0 then (Inl (paramNotSpecifiedError ''location''), h)
      else
        (case verifyDNSname dnsName of
           Some err \<Rightarrow> (Inl err, h)
         | None \<Rightarrow>
             (let h1 = h @ [CallGetLocation location]
              in case GetLocation env h location of
                   Inl err \<Rightarrow> (Inl err, h1)
                 | Inr locationInfo \<Rightarrow>
                     (case isInstanceSizeAvailableInLocation locationInfo instanceSize of
                        Inl err \<Rightarrow> (Inl err, h1)
                      | Inr sizeAvailable \<Rightarrow>
                          if sizeAvailable = False
                          then (Inl (errorString
                                       (invalidRoleSizeInLocationError instanceSize location)), h1)
                          else createAzureVMRole env dnsName instanceSize imageName location h1))))"

section \<open>Role operations\<close>

definition createStartRoleOperation :: "'svc env \<Rightarrow> RoleOperation" where
  "createStartRoleOperation env =
     \<lparr>OperationType = ''StartRoleOperation'', OperationXmlns = azureXmlns env\<rparr>"

definition createShutdowRoleOperation :: "'svc env \<Rightarrow> RoleOperation" where
  "createShutdowRoleOperation env =
     \<lparr>OperationType = ''ShutdownRoleOperation'', OperationXmlns = azureXmlns env\<rparr>"

definition createRestartRoleOperation :: "'svc env \<Rightarrow> RoleOperation" where
  "createRestartRoleOperation env =
     \<lparr>OperationType = ''RestartRoleOperation'', OperationXmlns = azureXmlns env\<rparr>"

text \<open>
  In the four role operations the value of \<^verbatim>\<open>waitAsyncOperation\<close> is not assigned: the
  call is made and \<^verbatim>\<open>nil\<close> is returned.
\<close>

definition StartRole ::
  "'svc env \<Rightarrow> string \<Rightarrow> string \<Rightarrow> string \<Rightarrow> 'svc call list \<Rightarrow> error option \<times> 'svc call list" where
  "StartRole env cloudserviceName deploymentName roleName h =
     (if length cloudserviceName = 0 then (Some (paramNotSpecifiedError ''cloudserviceName''), h)
      else if length deploymentName = 0 then (Some (paramNotSpecifiedError ''deploymentName''), h)
      else if length roleName = 0 then (Some (paramNotSpecifiedError ''roleName''), h)
      else
        (case xmlMarshal env (StartRoleDoc (createStartRoleOperation env)) of
           Inl err \<Rightarrow> (Some err, h)
         | Inr startRoleOperationBytes \<Rightarrow>
             (let requestURL = azureOperationsURL cloudserviceName deploymentName roleName;
                  h1 = h @ [CallPostRequest requestURL startRoleOperationBytes]
              in case sendAzurePostRequest env h requestURL startRoleOperationBytes of
                   Inl azureErr \<Rightarrow> (Some azureErr, h1)
                 | Inr requestId \<Rightarrow>
                     (let _ = waitAsyncOperation env h1 requestId
                      in (None, h1 @ [CallWaitAsyncOperation requestId])))))"

definition ShutdownRole ::
  "'svc env \<Rightarrow> string \<Rightarrow> string \<Rightarrow> string \<Rightarrow> 'svc call list \<Rightarrow> error option \<times> 'svc call list" where
  "ShutdownRole env cloudserviceName deploymentName roleName h =
     (if length cloudserviceName = 0 then (Some (paramNotSpecifiedError ''cloudserviceName''), h)
      else if length deploymentName = 0 then (Some (paramNotSpecifiedError ''deploymentName''), h)
      else if length roleName = 0 then (Some (paramNotSpecifiedError ''roleName''), h)
      else
        (case xmlMarshal env (ShutdownRoleDoc (createShutdowRoleOperation env)) of
           Inl err \<Rightarrow> (Some err, h)
         | Inr shutdownRoleOperationBytes \<Rightarrow>
             (let requestURL = azureOperationsURL cloudserviceName deploymentName roleName;
                  h1 = h @ [CallPostRequest requestURL shutdownRoleOperationBytes]
              in case sendAzurePostRequest env h requestURL shutdownRoleOperationBytes of
                   Inl azureErr \<Rightarrow> (Some azureErr, h1)
                 | Inr requestId \<Rightarrow>
                     (let _ = waitAsyncOperation env h1 requestId
                      in (None, h1 @ [CallWaitAsyncOperation requestId])))))"

definition RestartRole ::
  "'svc env \<Rightarrow> string \<Rightarrow> string \<Rightarrow> string \<Rightarrow> 'svc call list \<Rightarrow> error option \<times> 'svc call list" where
  "RestartRole env cloudserviceName deploymentName roleName h =
     (if length cloudserviceName = 0 then (Some (paramNotSpecifiedError ''cloudserviceName''), h)
      else if length deploymentName = 0 then (Some (paramNotSpecifiedError ''deploymentName''), h)
      else if length roleName = 0 then (Some (paramNotSpecifiedError ''roleName''), h)
      else
        (case xmlMarshal env (RestartRoleDoc (createRestartRoleOperation env)) of
           Inl err \<Rightarrow> (Some err, h)
         | Inr restartRoleOperationBytes \<Rightarrow>
             (let requestURL = azureOperationsURL cloudserviceName deploymentName roleName;
                  h1 = h @ [CallPostRequest requestURL restartRoleOperationBytes]
              in case sendAzurePostRequest env h requestURL restartRoleOperationBytes of
                   Inl azureErr \<Rightarrow> (Some azureErr, h1)
                 | Inr requestId \<Rightarrow>
                     (let _ = waitAsyncOperation env h1 requestId
                      in (None, h1 @ [CallWaitAsyncOperation requestId])))))"

definition DeleteRole ::
  "'svc env \<Rightarrow> string \<Rightarrow> string \<Rightarrow> string \<Rightarrow> 'svc call list \<Rightarrow> error option \<times> 'svc call list" where
  "DeleteRole env cloudserviceName deploymentName roleName h =
     (if length cloudserviceName = 0 then (Some (paramNotSpecifiedError ''cloudserviceName''), h)
      else if length deploymentName = 0 then (Some (paramNotSpecifiedError ''deploymentName''), h)
      else if length roleName = 0 then (Some (paramNotSpecifiedError ''roleName''), h)
      else
        (let requestURL = azureRoleURL cloudserviceName deploymentName roleName;
             h1 = h @ [CallDeleteRequest requestURL]
         in case sendAzureDeleteRequest env h requestURL of
              Inl azureErr \<Rightarrow> (Some azureErr, h1)
            | Inr requestId \<Rightarrow>
                (let _ = waitAsyncOperation env h1 requestId
                 in (None, h1 @ [CallWaitAsyncOperation requestId]))))"

section \<open>The VM-creation workflow\<close>

definition createVMDeploymentConfig :: "'svc env \<Rightarrow> Role \<Rightarrow> VMDeployment" where
  "createVMDeploymentConfig env role =
     \<lparr>DeploymentName = RoleName role, DeploymentXmlns = azureXmlns env,
      DeploymentSlot = ''Production'', Label = RoleName role, RoleList = [] @ [role]\<rparr>"

definition createServiceCertDeploymentConf ::
  "'svc env \<Rightarrow> string \<Rightarrow> 'svc call list \<Rightarrow> (error + ServiceCertificate) \<times> 'svc call list" where
  "createServiceCertDeploymentConf env certPath h =
     (let h1 = h @ [CallReadFile certPath]
      in case ReadFile env h certPath of
           Inl err \<Rightarrow> (Inl err, h1)
         | Inr data \<Rightarrow>
             (Inr \<lparr>CertificateXmlns = azureXmlns env, Data = base64 env data,
                   CertificateFormat = ''pfx''\<rparr>, h1))"

text \<open>\<^verbatim>\<open>uploadServiceCert\<close> returns what \<^verbatim>\<open>waitAsyncOperation\<close> returns.\<close>

definition uploadServiceCert ::
  "'svc env \<Rightarrow> string \<Rightarrow> string \<Rightarrow> 'svc call list \<Rightarrow> error option \<times> 'svc call list" where
  "uploadServiceCert env dnsName certPath h =
     (case createServiceCertDeploymentConf env certPath h of
        (Inl err, h1) \<Rightarrow> (Some err, h1)
      | (Inr certificateConfig, h1) \<Rightarrow>
          (case xmlMarshal env (CertificateDoc certificateConfig) of
             Inl err \<Rightarrow> (Some err, h1)
           | Inr certificateConfigBytes \<Rightarrow>
               (let requestURL = azureCertificatListURL dnsName;
                    h2 = h1 @ [CallPostRequest requestURL certificateConfigBytes]
                in case sendAzurePostRequest env h1 requestURL certificateConfigBytes of
                     Inl azureErr \<Rightarrow> (Some azureErr, h2)
                   | Inr requestId \<Rightarrow>
                       (waitAsyncOperation env h2 requestId,
                        h2 @ [CallWaitAsyncOperation requestId]))))"

text \<open>
  \<^verbatim>\<open>CreateAzureVM\<close>. The two \<^verbatim>\<open>waitAsyncOperation\<close> calls of the workflow itself are
  statements: their value is not assigned. Each of the three
  \<^verbatim>\<open>DeleteHostedService\<close> calls is a statement too, followed by \<^verbatim>\<open>return err\<close> with the
  error of the step that failed.
\<close>

definition CreateAzureVM ::
  "'svc env \<Rightarrow> Role option \<Rightarrow> string \<Rightarrow> string \<Rightarrow> 'svc call list \<Rightarrow> error option \<times> 'svc call list" where
  "CreateAzureVM env azureVMConfiguration dnsName location h =
     (case azureVMConfiguration of
        None \<Rightarrow> (Some (paramNotSpecifiedError ''azureVMConfiguration''), h)
      | Some role \<Rightarrow>
          if length dnsName = 0 then (Some (paramNotSpecifiedError ''dnsName''), h)
          else if length location = 0 then (Some (paramNotSpecifiedError ''location''), h)
          else
            (case verifyDNSname dnsName of
               Some err \<Rightarrow> (Some err, h)
             | None \<Rightarrow>
                 (let h1 = h @ [CallCreateHostedService dnsName location []]
                  in case CreateHostedService env h dnsName location [] of
                       Inl err \<Rightarrow> (Some err, h1)
                     | Inr requestId \<Rightarrow>
                         (let _ = waitAsyncOperation env h1 requestId;
                              h2 = h1 @ [CallWaitAsyncOperation requestId]
                          in case (if UseCertAuth role
                                   then uploadServiceCert env dnsName (CertPath role) h2
                                   else (None, h2)) of
                               (Some err, h3) \<Rightarrow>
                                 (let _ = DeleteHostedService env h3 dnsName
                                  in (Some err, h3 @ [CallDeleteHostedService dnsName]))
                             | (None, h3) \<Rightarrow>
                                 (case xmlMarshal env
                                         (DeploymentDoc (createVMDeploymentConfig env role)) of
                                    Inl err \<Rightarrow>
                                      (let _ = DeleteHostedService env h3 dnsName
                                       in (Some err, h3 @ [CallDeleteHostedService dnsName]))
                                  | Inr vMDeploymentBytes \<Rightarrow>
                                      (let requestURL = azureDeploymentListURL env (RoleName role);
                                           h4 = h3 @ [CallPostRequest requestURL vMDeploymentBytes]
                                       in case sendAzurePostRequest env h3 requestURL
                                                 vMDeploymentBytes of
                                            Inl err \<Rightarrow>
                                              (let _ = DeleteHostedService env h4 dnsName
                                               in (Some err, h4 @ [CallDeleteHostedService dnsName]))
                                          | Inr requestId' \<Rightarrow>
                                              (let _ = waitAsyncOperation env h4 requestId'
                                               in (None,
                                                   h4 @ [CallWaitAsyncOperation requestId']))))))))"

section \<open>Reading a run\<close>

text \<open>\<open>issued h r\<close>: the calls a run that started after \<open>h\<close> made, oldest first.\<close>

definition issued :: "'svc call list \<Rightarrow> 'a \<times> 'svc call list \<Rightarrow> 'svc call list" where
  "issued h r = drop (length h) (snd r)"

fun isDeleteHostedService :: "'svc call \<Rightarrow> bool" where
  "isDeleteHostedService (CallDeleteHostedService _) = True"
| "isDeleteHostedService _ = False"

fun isCreateStorageService :: "'svc call \<Rightarrow> bool" where
  "isCreateStorageService (CallCreateStorageService _ _) = True"
| "isCreateStorageService _ = False"

section \<open>Concrete inputs\<close>

text \<open>
  A remote side on which everything succeeds: no storage service exists yet in any
  location, the only readable file is \<open>cert.pem\<close>, whose PEM block has an empty
  payload, and \<open>sha1Sum\<close> answers with the SHA-1 digest of the empty input. Beyond
  ASCII the tables of \<open>plainTables\<close> hold U+00E9, a lower-case letter, and nothing else.
\<close>

definition plainTables :: rangeTables where
  "plainTables =
     \<lparr>upperBeyond = (\<lambda>r. False), titleBeyond = (\<lambda>r. False), lowerBeyond = (\<lambda>r. r = 0xE9),
      numberBeyond = (\<lambda>r. False), digitBeyond = (\<lambda>r. False)\<rparr>"

definition emptyDigest :: string where
  "emptyDigest =
     [CHR 0xDA, CHR 0x39, CHR 0xA3, CHR 0xEE, CHR 0x5E, CHR 0x6B, CHR 0x4B, CHR 0x0D,
      CHR 0x32, CHR 0x55, CHR 0xBF, CHR 0xEF, CHR 0x95, CHR 0x60, CHR 0x18, CHR 0x90,
      CHR 0xAF, CHR 0xD8, CHR 0x07, CHR 0x09]"

definition quietEnv :: "string env" where
  "quietEnv =
     \<lparr>azureXmlns = ''http://schemas.microsoft.com/windowsazure'',
      azureDeploymentListURL = (\<lambda>n. ''services/hostedservices/'' @ n @ ''/deployments''),
      CreateHostedService = (\<lambda>h dns loc rev. Inr ''request-1''),
      DeleteHostedService = (\<lambda>h dns. None),
      waitAsyncOperation = (\<lambda>h requestId. None),
      sendAzurePostRequest = (\<lambda>h url body. Inr ''request-2''),
      sendAzureDeleteRequest = (\<lambda>h url. Inr ''request-3''),
      GetLocation = (\<lambda>h n. Inr \<lparr>VirtualMachineRoleSizes = [''Small'', ''Medium'']\<rparr>),
      ResolveImageName = (\<lambda>h n. None),
      GetStorageServiceByLocation = (\<lambda>h loc. Inr None),
      newUUID = (\<lambda>h. Inr ''0a1b2c3d''),
      CreateStorageService = (\<lambda>h n loc. Inr (Some n)),
      GetBlobEndpoint =
        (\<lambda>h svc. case svc of
                   None \<Rightarrow> Inl (External ''no storage service'')
                 | Some n \<Rightarrow> Inr (''https://'' @ n @ ''.blob.core.windows.net/'')),
      Now = (\<lambda>h. ''20141231235959''),
      ReadFile =
        (\<lambda>h path. if path = ''cert.pem'' then Inr ''PEM''
                   else Inl (External ''no such file'')),
      xmlMarshal = (\<lambda>d. Inr ''xml''),
      base64 = (\<lambda>s. s),
      pemDecode = (\<lambda>s. if s = ''PEM'' then (Some \<lparr>Bytes = []\<rparr>, []) else (None, s)),
      sha1Sum = (\<lambda>s. emptyDigest),
      unicode = plainTables\<rparr>"

text \<open>The operation tracker reports every operation as failed.\<close>

definition failedOperation :: error where
  "failedOperation = External ''Failed: ConflictError''"

definition trackerFailsEnv :: "string env" where
  "trackerFailsEnv = quietEnv\<lparr>waitAsyncOperation := (\<lambda>h requestId. Some failedOperation)\<rparr>"

text \<open>The certificate file cannot be read, so the certificate upload fails.\<close>

definition certFailsEnv :: "string env" where
  "certFailsEnv = quietEnv\<lparr>ReadFile := (\<lambda>h path. Inl (External ''no such file''))\<rparr>"


text \<open>A storage service exists already.\<close>

definition storageExistsEnv :: "string env" where
  "storageExistsEnv = quietEnv\<lparr>GetStorageServiceByLocation := (\<lambda>h loc. Inr (Some ''portalvhdsold''))\<rparr>"

definition passwordRole :: Role where
  "passwordRole = zeroRole\<lparr>RoleName := ''myvm'', RoleSize := ''Small'',
     RoleType := ''PersistentVMRole'', ProvisionGuestAgent := True\<rparr>"

definition certRole :: Role where
  "certRole = passwordRole\<lparr>UseCertAuth := True, CertPath := ''cert.pem''\<rparr>"

text \<open>
  \<open>aB1\<close> followed by fourteen times the two bytes of U+00E9: 31 bytes, 17 characters.
\<close>

definition longPassword :: string where
  "longPassword = ''aB1'' @
     [CHR 0xC3, CHR 0xA9, CHR 0xC3, CHR 0xA9, CHR 0xC3, CHR 0xA9, CHR 0xC3, CHR 0xA9,
      CHR 0xC3, CHR 0xA9, CHR 0xC3, CHR 0xA9, CHR 0xC3, CHR 0xA9, CHR 0xC3, CHR 0xA9,
      CHR 0xC3, CHR 0xA9, CHR 0xC3, CHR 0xA9, CHR 0xC3, CHR 0xA9, CHR 0xC3, CHR 0xA9,
      CHR 0xC3, CHR 0xA9, CHR 0xC3, CHR 0xA9]"

text \<open>\<open>A\<close>, the two bytes of U+00E9, \<open>1\<close>: 4 bytes, 3 characters.\<close>

definition shortPassword :: string where
  "shortPassword = [CHR ''A'', CHR 0xC3, CHR 0xA9, CHR ''1'']"

section \<open>Evaluating the concrete inputs\<close>

lemma quietEnv_sel:
  "azureXmlns quietEnv = ''http://schemas.microsoft.com/windowsazure''"
  "azureDeploymentListURL quietEnv = (\<lambda>n. ''services/hostedservices/'' @ n @ ''/deployments'')"
  "CreateHostedService quietEnv = (\<lambda>h dns loc rev. Inr ''request-1'')"
  "DeleteHostedService quietEnv = (\<lambda>h dns. None)"
  "waitAsyncOperation quietEnv = (\<lambda>h requestId. None)"
  "sendAzurePostRequest quietEnv = (\<lambda>h url body. Inr ''request-2'')"
  "sendAzureDeleteRequest quietEnv = (\<lambda>h url. Inr ''request-3'')"
  "GetLocation quietEnv = (\<lambda>h n. Inr \<lparr>VirtualMachineRoleSizes = [''Small'', ''Medium'']\<rparr>)"
  "ResolveImageName quietEnv = (\<lambda>h n. None)"
  "GetStorageServiceByLocation quietEnv = (\<lambda>h loc. Inr None)"
  "newUUID quietEnv = (\<lambda>h. Inr ''0a1b2c3d'')"
  "CreateStorageService quietEnv = (\<lambda>h n loc. Inr (Some n))"
  "GetBlobEndpoint quietEnv (h :: string call list) (Some n) =
     Inr (''https://'' @ n @ ''.blob.core.windows.net/'')"
  "Now quietEnv = (\<lambda>h. ''20141231235959'')"
  "ReadFile quietEnv (h :: string call list) ''cert.pem'' = Inr ''PEM''"
  "xmlMarshal quietEnv = (\<lambda>d. Inr ''xml'')"
  "base64 quietEnv = (\<lambda>s. s)"
  "pemDecode quietEnv ''PEM'' = (Some \<lparr>Bytes = []\<rparr>, [])"
  "sha1Sum quietEnv = (\<lambda>s. emptyDigest)"
  "unicode quietEnv = plainTables"
  by (simp_all add: quietEnv_def)

lemma trackerFailsEnv_sel:
  "azureXmlns trackerFailsEnv = azureXmlns quietEnv"
  "azureDeploymentListURL trackerFailsEnv = azureDeploymentListURL quietEnv"
  "CreateHostedService trackerFailsEnv = CreateHostedService quietEnv"
  "waitAsyncOperation trackerFailsEnv = (\<lambda>h requestId. Some failedOperation)"
  "sendAzurePostRequest trackerFailsEnv = sendAzurePostRequest quietEnv"
  "sendAzureDeleteRequest trackerFailsEnv = sendAzureDeleteRequest quietEnv"
  "xmlMarshal trackerFailsEnv = xmlMarshal quietEnv"
  by (simp_all add: trackerFailsEnv_def)

lemma certFailsEnv_sel:
  "azureXmlns certFailsEnv = azureXmlns quietEnv"
  "CreateHostedService certFailsEnv = CreateHostedService quietEnv"
  "DeleteHostedService certFailsEnv = DeleteHostedService quietEnv"
  "waitAsyncOperation certFailsEnv = waitAsyncOperation quietEnv"
  "ReadFile certFailsEnv = (\<lambda>h path. Inl (External ''no such file''))"
  by (simp_all add: certFailsEnv_def)


lemma storageExistsEnv_sel:
  "GetStorageServiceByLocation storageExistsEnv = (\<lambda>h loc. Inr (Some ''portalvhdsold''))"
  "GetBlobEndpoint storageExistsEnv = GetBlobEndpoint quietEnv"
  "Now storageExistsEnv = Now quietEnv"
  by (simp_all add: storageExistsEnv_def)

lemma role_sel:
  "RoleName passwordRole = ''myvm''"
  "UseCertAuth passwordRole = False"
  "RoleName certRole = ''myvm''"
  "UseCertAuth certRole = True"
  "CertPath certRole = ''cert.pem''"
  by (simp_all add: passwordRole_def certRole_def zeroRole_def)

lemma verifyDNSname_myservice: "verifyDNSname ''myservice'' = None"
  by (simp add: verifyDNSname_def)

lemma issued_append: "issued h (x, h @ es) = es"
  by (simp add: issued_def)

lemma issued_Nil: "issued [] r = snd r"
  by (simp add: issued_def)

section \<open>The operation tracker's verdict in the workflows\<close>

text \<open>
  C1 (the code departs from the claim). The hosted service is submitted and its
  operation is awaited; the tracker reports that operation as failed. \<open>CreateAzureVM\<close>
  goes on to post the deployment and returns no error.
\<close>

theorem CreateAzureVM_ignores_failed_creation:
  "waitAsyncOperation trackerFailsEnv [CallCreateHostedService ''myservice'' ''West US'' []]
     ''request-1'' = Some failedOperation
   \<and> CreateAzureVM trackerFailsEnv (Some passwordRole) ''myservice'' ''West US'' [] =
       (None,
        [CallCreateHostedService ''myservice'' ''West US'' [],
         CallWaitAsyncOperation ''request-1'',
         CallPostRequest ''services/hostedservices/myvm/deployments'' ''xml'',
         CallWaitAsyncOperation ''request-2''])"
  by (simp add: CreateAzureVM_def Let_def verifyDNSname_myservice trackerFailsEnv_sel
      quietEnv_sel role_sel)

text \<open>
  C2 (the code departs from the claim). The submission succeeds and the tracker reports
  the operation as failed; each of the four role operations returns no error.
\<close>

theorem role_operations_ignore_failed_operation:
  "waitAsyncOperation trackerFailsEnv h requestId = Some failedOperation
   \<and> StartRole trackerFailsEnv ''svc'' ''dep'' ''role'' [] =
       (None,
        [CallPostRequest
           ''services/hostedservices/svc/deployments/dep/roleinstances/role/Operations'' ''xml'',
         CallWaitAsyncOperation ''request-2''])
   \<and> ShutdownRole trackerFailsEnv ''svc'' ''dep'' ''role'' [] =
       (None,
        [CallPostRequest
           ''services/hostedservices/svc/deployments/dep/roleinstances/role/Operations'' ''xml'',
         CallWaitAsyncOperation ''request-2''])
   \<and> RestartRole trackerFailsEnv ''svc'' ''dep'' ''role'' [] =
       (None,
        [CallPostRequest
           ''services/hostedservices/svc/deployments/dep/roleinstances/role/Operations'' ''xml'',
         CallWaitAsyncOperation ''request-2''])
   \<and> DeleteRole trackerFailsEnv ''svc'' ''dep'' ''role'' [] =
       (None,
        [CallDeleteRequest ''services/hostedservices/svc/deployments/dep/roles/role'',
         CallWaitAsyncOperation ''request-3''])"
  by (simp add: StartRole_def ShutdownRole_def RestartRole_def DeleteRole_def Let_def
      azureOperationsURL_def azureRoleURL_def trackerFailsEnv_sel quietEnv_sel)

text \<open>
  Whatever the tracker answers, a role operation whose submission was accepted returns
  no error: the answer is not part of the result.
\<close>

lemma role_operations_tracker_blind:
  "StartRole (env\<lparr>waitAsyncOperation := w\<rparr>) c d r h = StartRole env c d r h"
  "ShutdownRole (env\<lparr>waitAsyncOperation := w\<rparr>) c d r h = ShutdownRole env c d r h"
  "RestartRole (env\<lparr>waitAsyncOperation := w\<rparr>) c d r h = RestartRole env c d r h"
  "DeleteRole (env\<lparr>waitAsyncOperation := w\<rparr>) c d r h = DeleteRole env c d r h"
  by (simp_all add: StartRole_def ShutdownRole_def RestartRole_def DeleteRole_def Let_def
      createStartRoleOperation_def createShutdowRoleOperation_def
      createRestartRoleOperation_def split: sum.splits)

section \<open>Compensation in the VM-creation workflow\<close>

lemma uploadServiceCert_calls:
  "\<exists>es. snd (uploadServiceCert env dnsName certPath h) = h @ es
        \<and> filter isDeleteHostedService es = []"
  by (auto simp: uploadServiceCert_def createServiceCertDeploymentConf_def Let_def
      split: sum.splits prod.splits)


text \<open>
  C3. The arguments pass the local checks, the hosted service is submitted without
  error, certificate authentication is requested and \<open>uploadServiceCert\<close> fails with
  \<open>err\<close>. Then \<open>CreateAzureVM\<close> returns \<open>err\<close> itself, the deletion of the hosted service
  is the last call it makes, and it is the only \<open>DeleteHostedService\<close> call of the run.
\<close>

theorem CreateAzureVM_cert_failure_compensates_once:
  assumes "dnsName \<noteq> []" and "location \<noteq> []" and "verifyDNSname dnsName = None"
    and "CreateHostedService env h dnsName location [] = Inr requestId"
    and "UseCertAuth role"
    and "uploadServiceCert env dnsName (CertPath role)
           (h @ [CallCreateHostedService dnsName location [],
                 CallWaitAsyncOperation requestId]) = (Some err, h3)"
  shows "CreateAzureVM env (Some role) dnsName location h =
           (Some err, h3 @ [CallDeleteHostedService dnsName])
       \<and> filter isDeleteHostedService
           (issued h (CreateAzureVM env (Some role) dnsName location h)) =
           [CallDeleteHostedService dnsName]"
proof -
  let ?h2 = "h @ [CallCreateHostedService dnsName location [], CallWaitAsyncOperation requestId]"
  have run: "CreateAzureVM env (Some role) dnsName location h =
               (Some err, h3 @ [CallDeleteHostedService dnsName])"
    using assms by (simp add: CreateAzureVM_def Let_def)
  obtain es where es: "h3 = ?h2 @ es" "filter isDeleteHostedService es = []"
    using uploadServiceCert_calls [of env dnsName "CertPath role" ?h2] assms(6) by auto
  show ?thesis
    by (simp add: run issued_def es)
qed

theorem CreateAzureVM_cert_failure_compensates_once_witness:
  "CreateAzureVM certFailsEnv (Some certRole) ''myservice'' ''West US'' [] =
     (Some (External ''no such file''),
      [CallCreateHostedService ''myservice'' ''West US'' [],
       CallWaitAsyncOperation ''request-1'',
       CallReadFile ''cert.pem'',
       CallDeleteHostedService ''myservice''])
   \<and> filter isDeleteHostedService
        (issued [] (CreateAzureVM certFailsEnv (Some certRole) ''myservice'' ''West US'' [])) =
      [CallDeleteHostedService ''myservice'']"
proof -
  have a: "''myservice'' \<noteq> []" and b: "''West US'' \<noteq> []" by simp_all
  have c: "CreateHostedService certFailsEnv [] ''myservice'' ''West US'' [] = Inr ''request-1''"
    by (simp add: certFailsEnv_sel quietEnv_sel)
  have d: "UseCertAuth certRole" by (simp add: role_sel)
  have e: "uploadServiceCert certFailsEnv ''myservice'' (CertPath certRole)
             ([] @ [CallCreateHostedService ''myservice'' ''West US'' [],
                    CallWaitAsyncOperation ''request-1'']) =
           (Some (External ''no such file''),
            [CallCreateHostedService ''myservice'' ''West US'' [],
             CallWaitAsyncOperation ''request-1'', CallReadFile ''cert.pem''])"
    by (simp add: uploadServiceCert_def createServiceCertDeploymentConf_def Let_def
        certFailsEnv_sel role_sel)
  show ?thesis
    using CreateAzureVM_cert_failure_compensates_once [OF a b verifyDNSname_myservice c d e]
    by (simp add: issued_Nil)
qed






section \<open>The password validator\<close>

lemma runesOf_Nil: "runesOf [] = []"
  by (simp add: runesOf.simps)

lemma runesOf_ascii_Cons: "b < 0x80 \<Longrightarrow> runesOf (b # bs) = b # runesOf bs"
  by (subst runesOf.simps) simp

lemma runesOf_two_bytes:
  "0xC2 \<le> b0 \<Longrightarrow> b0 \<le> 0xDF \<Longrightarrow> cont b1 \<Longrightarrow>
   runesOf (b0 # b1 # bs) = ((b0 - 0xC0) * 64 + (b1 - 0x80)) # runesOf bs"
  by (subst runesOf.simps) simp

lemma runesOf_ascii: "\<forall>b\<in>set bs. b < 0x80 \<Longrightarrow> runesOf bs = bs"
  by (induction bs) (simp_all add: runesOf_Nil runesOf_ascii_Cons)

lemmas class_defs = IsOneOf_def Upper_def Title_def Lower_def Number_def Digit_def

text \<open>
  On passwords of ASCII bytes, where bytes and characters are the same, the validator
  is the one the specification describes: a length from 4 to 30 and one byte each among
  \<open>A\<close>-\<open>Z\<close> (0x41-0x5A), \<open>a\<close>-\<open>z\<close> (0x61-0x7A) and \<open>0\<close>-\<open>9\<close> (0x30-0x39).
\<close>

lemma verifyPassword_ascii:
  assumes "\<forall>c\<in>set password. (of_char c :: nat) < 0x80"
  shows "verifyPassword T password =
     (if length password < 4 \<or> 30 < length password
      then Some (errorString invalidPasswordLengthError)
      else if (\<exists>c\<in>set password. (0x41::nat) \<le> of_char c \<and> (of_char c :: nat) \<le> 0x5A)
            \<and> (\<exists>c\<in>set password. (0x61::nat) \<le> of_char c \<and> (of_char c :: nat) \<le> 0x7A)
            \<and> (\<exists>c\<in>set password. (0x30::nat) \<le> of_char c \<and> (of_char c :: nat) \<le> 0x39)
      then None
      else Some (errorString invalidPasswordError))"
proof -
  have r: "runes password = map of_char password"
    unfolding runes_def using assms by (intro runesOf_ascii) auto
  have u: "list_ex (IsOneOf [Upper T, Title T]) (runes password)
             \<longleftrightarrow> (\<exists>c\<in>set password. (0x41::nat) \<le> of_char c \<and> (of_char c :: nat) \<le> 0x5A)"
    using assms by (auto simp: r list_ex_iff class_defs)
  have l: "list_ex (IsOneOf [Lower T]) (runes password)
             \<longleftrightarrow> (\<exists>c\<in>set password. (0x61::nat) \<le> of_char c \<and> (of_char c :: nat) \<le> 0x7A)"
    using assms by (auto simp: r list_ex_iff class_defs)
  have n: "list_ex (IsOneOf [Number T, Digit T]) (runes password)
             \<longleftrightarrow> (\<exists>c\<in>set password. (0x30::nat) \<le> of_char c \<and> (of_char c :: nat) \<le> 0x39)"
    using assms by (auto simp: r list_ex_iff class_defs)
  show ?thesis
    by (simp add: verifyPassword_def u l n)
qed

lemma verifyPassword_abcD1: "verifyPassword T ''abcD1'' = None"
  by (simp add: verifyPassword_def runes_def runesOf_ascii_Cons runesOf_Nil class_defs)

lemma verifyPassword_abcde:
  "verifyPassword T ''abcde'' = Some (errorString invalidPasswordError)"
  by (simp add: verifyPassword_def runes_def runesOf_ascii_Cons runesOf_Nil class_defs)

lemma verifyPassword_placeholder: "verifyPassword T ''P@ssword1'' = None"
  by (simp add: verifyPassword_def runes_def runesOf_ascii_Cons runesOf_Nil class_defs)

lemma verifyPassword_length:
  "length password < 4 \<or> 30 < length password \<Longrightarrow>
   verifyPassword T password = Some (errorString invalidPasswordLengthError)"
  by (simp add: verifyPassword_def)

text \<open>
  What the validator bounds is the number of bytes: a password of three characters that
  takes four bytes passes.
\<close>

lemma verifyPassword_shortPassword:
  "length shortPassword = 4 \<and> runes shortPassword = [0x41, 0xE9, 0x31]
   \<and> verifyPassword plainTables shortPassword = None"
  by (simp add: shortPassword_def verifyPassword_def runes_def runesOf_ascii_Cons
      runesOf_two_bytes runesOf_Nil cont_def class_defs plainTables_def)

text \<open>
  C5 (the code departs from the claim). \<open>longPassword\<close> has 17 characters, one of them
  upper case, one lower case and one a digit, so the claim has it accepted. It takes 31
  bytes, and \<open>verifyPassword\<close> rejects it with the length message, whatever the tables
  say beyond ASCII.
\<close>

theorem verifyPassword_counts_bytes:
  "length (runes longPassword) = 17
   \<and> list_ex (Upper T) (runes longPassword)
   \<and> list_ex (Lower T) (runes longPassword)
   \<and> list_ex (Digit T) (runes longPassword)
   \<and> length longPassword = 31
   \<and> verifyPassword T longPassword = Some (errorString invalidPasswordLengthError)"
proof -
  have r: "runes longPassword =
     [0x61, 0x42, 0x31, 0xE9, 0xE9, 0xE9, 0xE9, 0xE9, 0xE9, 0xE9, 0xE9, 0xE9, 0xE9, 0xE9,
      0xE9, 0xE9, 0xE9]"
    by (simp add: longPassword_def runes_def runesOf_ascii_Cons runesOf_two_bytes
        runesOf_Nil cont_def)
  have l: "length longPassword = 31"
    by (simp add: longPassword_def)
  show ?thesis
    by (simp add: r l verifyPassword_length class_defs)
qed

section \<open>Provisioning with an empty password\<close>

text \<open>
  C6. Whenever \<open>createLinuxProvisioningConfig\<close> builds a configuration set from an
  empty password, that set has SSH password authentication disabled and carries the
  placeholder \<open>P@ssword1\<close>, which is not empty and which the validator would accept.
  The validator has no part in it: with any other validator in the place of
  \<^verbatim>\<open>verifyPassword\<close>, one that rejects every password included, the result is the same.
\<close>

theorem createLinuxProvisioningConfig_empty_password:
  assumes "createLinuxProvisioningConfig env dnsName userName [] certPath h = (Inr cfg, h')"
  shows "DisableSshPasswordAuthentication cfg
       \<and> UserPassword cfg = ''P@ssword1''
       \<and> UserPassword cfg \<noteq> []
       \<and> verifyPassword (unicode env) (UserPassword cfg) = None
       \<and> createLinuxProvisioningConfigWith verify env dnsName userName [] certPath h =
           (Inr cfg, h')"
proof -
  have same: "createLinuxProvisioningConfigWith verify env dnsName userName [] certPath h =
              createLinuxProvisioningConfig env dnsName userName [] certPath h"
    by (simp add: createLinuxProvisioningConfig_def createLinuxProvisioningConfigWith_def)
  have pw: "UserPassword cfg = ''P@ssword1''" and dis: "DisableSshPasswordAuthentication cfg"
    using assms
    by (auto simp: createLinuxProvisioningConfig_def createLinuxProvisioningConfigWith_def
        Let_def zeroConfigurationSet_def split: if_splits prod.splits sum.splits)
  show ?thesis
    using assms by (simp add: same pw dis verifyPassword_placeholder)
qed

theorem createLinuxProvisioningConfig_empty_password_witness:
  "createLinuxProvisioningConfig quietEnv ''myvm'' ''azureuser'' [] [] [] =
     (Inr \<lparr>ConfigurationSetType = ''LinuxProvisioningConfiguration'', HostName = ''myvm'',
           UserName = ''azureuser'', UserPassword = ''P@ssword1'',
           DisableSshPasswordAuthentication = True, SSH = [], InputEndpoints = []\<rparr>, [])
   \<and> createLinuxProvisioningConfigWith (\<lambda>p. Some (errorString invalidPasswordError)) quietEnv
       ''myvm'' ''azureuser'' [] [] [] =
     (Inr \<lparr>ConfigurationSetType = ''LinuxProvisioningConfiguration'', HostName = ''myvm'',
           UserName = ''azureuser'', UserPassword = ''P@ssword1'',
           DisableSshPasswordAuthentication = True, SSH = [], InputEndpoints = []\<rparr>, [])"
proof -
  have run: "createLinuxProvisioningConfig quietEnv ''myvm'' ''azureuser'' [] [] [] =
     (Inr \<lparr>ConfigurationSetType = ''LinuxProvisioningConfiguration'', HostName = ''myvm'',
           UserName = ''azureuser'', UserPassword = ''P@ssword1'',
           DisableSshPasswordAuthentication = True, SSH = [], InputEndpoints = []\<rparr>, [])"
    by (simp add: createLinuxProvisioningConfig_def createLinuxProvisioningConfigWith_def
        Let_def zeroConfigurationSet_def)
  show ?thesis
    using createLinuxProvisioningConfig_empty_password
      [OF run, of "\<lambda>p. Some (errorString invalidPasswordError)"] run
    by simp
qed

section \<open>The certificate fingerprint\<close>

lemma hexDigit_upper: "hexDigit n \<in> set ''0123456789ABCDEF''"
  unfolding hexDigit_def by (rule nth_mem) simp

lemma SprintfX_alphabet: "set (SprintfX b) \<subseteq> set ''0123456789ABCDEF''"
  unfolding SprintfX_def using hexDigit_upper by auto

lemma SprintfX_length: "length (SprintfX b) = 2 * length b"
  unfolding SprintfX_def by (induction b) simp_all

text \<open>
  C7. When the file is read and \<^verbatim>\<open>pem.Decode\<close> finds a block, the fingerprint is the
  SHA-1 digest of the block's bytes written with two hexadecimal digits a byte, all of
  them among \<open>0\<close>-\<open>9\<close> and \<open>A\<close>-\<open>F\<close>, with nothing in between. It depends on the
  contents of the file alone: another read that yields the same contents, at another
  time and under another path, gives the same fingerprint.
\<close>

theorem getServiceCertFingerprint_sha1_upper_hex:
  assumes "ReadFile env h certPath = Inr certData"
    and "pemDecode env certData = (Some block, rest)"
  shows "fst (getServiceCertFingerprint env certPath h) =
           Inr (SprintfX (sha1Sum env (Bytes block)))
       \<and> set (SprintfX (sha1Sum env (Bytes block))) \<subseteq> set ''0123456789ABCDEF''
       \<and> length (SprintfX (sha1Sum env (Bytes block))) = 2 * length (sha1Sum env (Bytes block))
       \<and> (ReadFile env h' certPath' = Inr certData \<longrightarrow>
            fst (getServiceCertFingerprint env certPath' h') =
            fst (getServiceCertFingerprint env certPath h))"
proof -
  have run: "fst (getServiceCertFingerprint env p k) = Inr (SprintfX (sha1Sum env (Bytes block)))"
    if "ReadFile env k p = Inr certData" for p k
    using that assms(2) by (simp add: getServiceCertFingerprint_def Let_def)
  have here: "fst (getServiceCertFingerprint env certPath h) =
                Inr (SprintfX (sha1Sum env (Bytes block)))"
    using assms(1) by (rule run)
  have again: "ReadFile env h' certPath' = Inr certData \<longrightarrow>
                 fst (getServiceCertFingerprint env certPath' h') =
                 fst (getServiceCertFingerprint env certPath h)"
    using run here by simp
  show ?thesis
    using here again SprintfX_alphabet [of "sha1Sum env (Bytes block)"]
      SprintfX_length [of "sha1Sum env (Bytes block)"]
    by blast
qed

theorem getServiceCertFingerprint_sha1_upper_hex_witness:
  "fst (getServiceCertFingerprint quietEnv ''cert.pem'' []) =
     Inr ''DA39A3EE5E6B4B0D3255BFEF95601890AFD80709''
   \<and> fst (getServiceCertFingerprint quietEnv ''cert.pem'' [CallReadFile ''cert.pem'']) =
     fst (getServiceCertFingerprint quietEnv ''cert.pem'' [])"
proof -
  have a: "ReadFile quietEnv [] ''cert.pem'' = Inr ''PEM''"
    and a': "ReadFile quietEnv [CallReadFile ''cert.pem''] ''cert.pem'' = Inr ''PEM''"
    and b: "pemDecode quietEnv ''PEM'' = (Some \<lparr>Bytes = []\<rparr>, [])"
    by (simp_all add: quietEnv_sel)
  have hex: "SprintfX emptyDigest = ''DA39A3EE5E6B4B0D3255BFEF95601890AFD80709''"
    by (simp add: SprintfX_def hexDigit_def emptyDigest_def)
  show ?thesis
    using getServiceCertFingerprint_sha1_upper_hex
      [OF a b, of "[CallReadFile ''cert.pem'']" "''cert.pem''"] a'
    by (simp add: quietEnv_sel hex)
qed


section \<open>Instance size and location\<close>

lemma isInstanceSizeAvailableInLocation_member:
  "instanceSize \<noteq> [] \<Longrightarrow>
   isInstanceSizeAvailableInLocation location instanceSize =
     Inr (instanceSize \<in> set (VirtualMachineRoleSizes location))"
  by (auto simp: isInstanceSizeAvailableInLocation_def list_ex_iff)

text \<open>
  C8. The arguments pass the local checks and the location lookup answers with a
  location whose sizes do not include the requested one. Then
  \<open>CreateAzureVMConfiguration\<close> fails with the message naming the size and the
  location, and the location lookup is the only call it has made: no image is resolved,
  no storage service is looked up or created, no role is built.
\<close>

theorem CreateAzureVMConfiguration_size_not_in_location:
  assumes "verifyDNSname dnsName = None"
    and "instanceSize \<noteq> []" and "imageName \<noteq> []" and "location \<noteq> []"
    and "GetLocation env h location = Inr locationInfo"
    and "instanceSize \<notin> set (VirtualMachineRoleSizes locationInfo)"
  shows "CreateAzureVMConfiguration env dnsName instanceSize imageName location h =
           (Inl (errorString (''Role size: '' @ instanceSize @
                              '' not available in location: '' @ location @ ''.'')),
            h @ [CallGetLocation location])"
proof -
  have "dnsName \<noteq> []"
    using assms(1) by (auto simp: verifyDNSname_def split: if_splits)
  then show ?thesis
    using assms
    by (simp add: CreateAzureVMConfiguration_def isInstanceSizeAvailableInLocation_member
        invalidRoleSizeInLocationError_def Let_def)
qed

theorem CreateAzureVMConfiguration_size_not_in_location_witness:
  "CreateAzureVMConfiguration quietEnv ''myservice'' ''Huge'' ''ubuntu'' ''West US'' [] =
     (Inl (errorString ''Role size: Huge not available in location: West US.''),
      [CallGetLocation ''West US''])"
proof -
  have a: "''Huge'' \<noteq> []" and b: "''ubuntu'' \<noteq> []" and c: "''West US'' \<noteq> []"
    by simp_all
  have d: "GetLocation quietEnv [] ''West US'' =
             Inr \<lparr>VirtualMachineRoleSizes = [''Small'', ''Medium'']\<rparr>"
    by (simp add: quietEnv_sel)
  have e: "''Huge'' \<notin> set (VirtualMachineRoleSizes
                               \<lparr>VirtualMachineRoleSizes = [''Small'', ''Medium'']\<rparr>)"
    by simp
  show ?thesis
    using CreateAzureVMConfiguration_size_not_in_location
      [OF verifyDNSname_myservice a b c d e]
    by simp
qed

section \<open>The disk media link\<close>

text \<open>
  C9. With \<open>L\<close> the lookup of a storage service by location, \<open>U\<close> the request for a
  UUID, \<open>C\<close> the creation of a storage service and \<open>G\<close> the request for a blob endpoint:
  \<^item> a lookup that fails ends the run with its error, after \<open>L\<close> alone;
  \<^item> a lookup that finds a service is followed by no \<open>U\<close> and no \<open>C\<close>, and \<open>G\<close> is asked
    about the service found;
  \<^item> a lookup that finds none is followed by \<open>U\<close>; when no UUID comes the run ends with
    that error; otherwise \<open>C\<close> follows, once, for the name \<open>portalvhds\<close> followed by the
    UUID and for the location; a creation that fails ends the run with its error, after
    \<open>L\<close>, \<open>U\<close>, \<open>C\<close> alone; otherwise \<open>G\<close> is asked about the service created;
  \<^item> the link is the blob endpoint answered to \<open>G\<close>, followed by \<open>vhds/\<close>, the DNS name,
    a dash, the time stamp and \<open>.vhd\<close>.
\<close>

theorem getVHDMediaLink_lookup_create_derive:
  "(let L = CallGetStorageServiceByLocation location;
        U = CallNewUUID;
        r = getVHDMediaLink env dnsName location h;
        es = issued h r
    in (\<forall>e. GetStorageServiceByLocation env h location = Inl e \<longrightarrow> r = (Inl e, h @ [L]))
     \<and> (\<forall>s. GetStorageServiceByLocation env h location = Inr (Some s) \<longrightarrow>
           \<not> list_ex isCreateStorageService es \<and> U \<notin> set es \<and>
           (let G = CallGetBlobEndpoint (Some s)
            in case GetBlobEndpoint env (h @ [L]) (Some s) of
                 Inl e \<Rightarrow> r = (Inl e, h @ [L, G])
               | Inr blobEndpoint \<Rightarrow>
                   r = (Inr (blobEndpoint @ ''vhds/'' @ dnsName @ ''-'' @
                             Now env (h @ [L, G]) @ ''.vhd''),
                        h @ [L, G, CallNow])))
     \<and> (GetStorageServiceByLocation env h location = Inr None \<longrightarrow>
           take 2 es = [L, U]
         \<and> (\<forall>e. newUUID env (h @ [L]) = Inl e \<longrightarrow> r = (Inl e, h @ [L, U]))
         \<and> (\<forall>uuid. newUUID env (h @ [L]) = Inr uuid \<longrightarrow>
              (let C = CallCreateStorageService (''portalvhds'' @ uuid) location;
                   created = CreateStorageService env (h @ [L, U]) (''portalvhds'' @ uuid)
                               location
               in take 3 es = [L, U, C]
                \<and> filter isCreateStorageService es = [C]
                \<and> (\<forall>e. created = Inl e \<longrightarrow> r = (Inl e, h @ [L, U, C]))
                \<and> (\<forall>svc. created = Inr svc \<longrightarrow>
                      (let G = CallGetBlobEndpoint svc
                       in case GetBlobEndpoint env (h @ [L, U, C]) svc of
                            Inl e \<Rightarrow> r = (Inl e, h @ [L, U, C, G])
                          | Inr blobEndpoint \<Rightarrow>
                              r = (Inr (blobEndpoint @ ''vhds/'' @ dnsName @ ''-'' @
                                        Now env (h @ [L, U, C, G]) @ ''.vhd''),
                                   h @ [L, U, C, G, CallNow])))))))"
  by (auto simp: getVHDMediaLink_def Let_def issued_append split: sum.splits option.splits)

theorem getVHDMediaLink_lookup_create_derive_witness:
  "getVHDMediaLink quietEnv ''myvm'' ''West US'' [] =
     (Inr ''https://portalvhds0a1b2c3d.blob.core.windows.net/vhds/myvm-20141231235959.vhd'',
      [CallGetStorageServiceByLocation ''West US'', CallNewUUID,
       CallCreateStorageService ''portalvhds0a1b2c3d'' ''West US'',
       CallGetBlobEndpoint (Some ''portalvhds0a1b2c3d''), CallNow])
   \<and> getVHDMediaLink storageExistsEnv ''myvm'' ''West US'' [] =
     (Inr ''https://portalvhdsold.blob.core.windows.net/vhds/myvm-20141231235959.vhd'',
      [CallGetStorageServiceByLocation ''West US'',
       CallGetBlobEndpoint (Some ''portalvhdsold''), CallNow])
   \<and> getVHDMediaLink
       (quietEnv\<lparr>GetStorageServiceByLocation := (\<lambda>h loc. Inl (External ''lookup refused''))\<rparr>)
       ''myvm'' ''West US'' [] =
     (Inl (External ''lookup refused''), [CallGetStorageServiceByLocation ''West US''])
   \<and> getVHDMediaLink
       (quietEnv\<lparr>CreateStorageService := (\<lambda>h n loc. Inl (External ''create refused''))\<rparr>)
       ''myvm'' ''West US'' [] =
     (Inl (External ''create refused''),
      [CallGetStorageServiceByLocation ''West US'', CallNewUUID,
       CallCreateStorageService ''portalvhds0a1b2c3d'' ''West US''])"
  using
    getVHDMediaLink_lookup_create_derive
      [where location = "''West US''" and env = quietEnv and h = "[]" and dnsName = "''myvm''"]
    getVHDMediaLink_lookup_create_derive
      [where location = "''West US''" and env = storageExistsEnv and h = "[]"
         and dnsName = "''myvm''"]
    getVHDMediaLink_lookup_create_derive
      [where location = "''West US''" and h = "[]" and dnsName = "''myvm''"
         and env = "quietEnv\<lparr>GetStorageServiceByLocation :=
                               (\<lambda>h loc. Inl (External ''lookup refused''))\<rparr>"]
    getVHDMediaLink_lookup_create_derive
      [where location = "''West US''" and h = "[]" and dnsName = "''myvm''"
         and env = "quietEnv\<lparr>CreateStorageService :=
                               (\<lambda>h n loc. Inl (External ''create refused''))\<rparr>"]
  by (simp add: Let_def quietEnv_sel storageExistsEnv_sel)

section \<open>Configuration sets of a role\<close>

text \<open>
  C10. A call of \<open>AddAzureLinuxProvisioningConfig\<close> that returns no error was given a
  Role and returns it with exactly two configuration sets, a
  \<open>LinuxProvisioningConfiguration\<close> followed by a \<open>NetworkConfiguration\<close>. The sets
  attached before the call leave no trace: with any other sets in their place the call
  returns the same Role.
\<close>

theorem AddAzureLinuxProvisioningConfig_two_sets:
  assumes "AddAzureLinuxProvisioningConfig env azureVMConfiguration userName password
             certPath sshPort h = ((r, None), h')"
  shows "\<exists>role role' provisioningConfig networkConfig.
           azureVMConfiguration = Some role \<and> r = Some role'
         \<and> ConfigurationSets role' = [provisioningConfig, networkConfig]
         \<and> ConfigurationSetType provisioningConfig = ''LinuxProvisioningConfiguration''
         \<and> ConfigurationSetType networkConfig = ''NetworkConfiguration''
         \<and> (\<forall>previous.
               AddAzureLinuxProvisioningConfig env
                 (Some (role\<lparr>ConfigurationSets := previous\<rparr>)) userName password
                 certPath sshPort h = ((Some role', None), h'))"
  using assms
  by (auto simp: AddAzureLinuxProvisioningConfig_def createLinuxProvisioningConfig_def
      createLinuxProvisioningConfigWith_def createNetworkConfig_def Let_def osLinux_def
      zeroConfigurationSet_def
      split: option.splits if_splits sum.splits prod.splits)

theorem AddAzureLinuxProvisioningConfig_two_sets_witness:
  "\<exists>role' h'.
     AddAzureLinuxProvisioningConfig quietEnv
       (Some (passwordRole\<lparr>ConfigurationSets :=
                [zeroConfigurationSet, zeroConfigurationSet, zeroConfigurationSet]\<rparr>))
       ''azureuser'' ''abcD1'' [] 22 [] = ((Some role', None), h')
   \<and> map ConfigurationSetType (ConfigurationSets role') =
       [''LinuxProvisioningConfiguration'', ''NetworkConfiguration'']"
proof -
  let ?run = "AddAzureLinuxProvisioningConfig quietEnv
       (Some (passwordRole\<lparr>ConfigurationSets :=
                [zeroConfigurationSet, zeroConfigurationSet, zeroConfigurationSet]\<rparr>))
       ''azureuser'' ''abcD1'' [] 22 []"
  have "snd (fst ?run) = None"
    by (simp add: AddAzureLinuxProvisioningConfig_def createLinuxProvisioningConfig_def
        createLinuxProvisioningConfigWith_def createNetworkConfig_def Let_def
        verifyPassword_abcD1)
  then obtain r h' where run: "?run = ((r, None), h')"
    by (cases ?run) auto
  from AddAzureLinuxProvisioningConfig_two_sets [OF run]
  obtain role' provisioningConfig networkConfig where
    "r = Some role'" "ConfigurationSets role' = [provisioningConfig, networkConfig]"
    "ConfigurationSetType provisioningConfig = ''LinuxProvisioningConfiguration''"
    "ConfigurationSetType networkConfig = ''NetworkConfiguration''"
    by blast
  with run show ?thesis
    by simp
qed


end
